theory Spec2Isabelle
  imports Main "HOL-Library.AList"
begin

section \<open>Python values that main.py works with\<close>

text \<open>
  An exception instance: the name of its class and its message (what \<^verbatim>\<open>str(e)\<close>
  gives). Every exception of the model is an instance of a subclass of
  \<^verbatim>\<open>Exception\<close>: the errors of the database clients, and the built-in
  \<^verbatim>\<open>IndexError\<close>, \<^verbatim>\<open>AttributeError\<close>, \<^verbatim>\<open>NameError\<close> and
  \<^verbatim>\<open>UnboundLocalError\<close>.
\<close>

datatype exn = Exception string string

fun str_exn :: "exn \<Rightarrow> string" where
  "str_exn (Exception cls msg) = msg"

text \<open>What the script shows through Streamlit, in the order of the calls.\<close>

datatype ui = st_error string | st_success string | st_write string string

text \<open>
  A Python \<^verbatim>\<open>dict\<close> with string keys: the items in insertion order, no key twice.
  \<^verbatim>\<open>d[k] = v\<close> replaces the value of a key that is present, where it stands, and
  appends the item otherwise.
\<close>

type_synonym 'v dict = "(string \<times> 'v) list"

definition setitem :: "'v dict \<Rightarrow> string \<Rightarrow> 'v \<Rightarrow> 'v dict" where
  "setitem d k v = AList.update k v d"

text \<open>
  The metadata of one entity is \<^verbatim>\<open>{"columns": [...]}\<close> or \<^verbatim>\<open>{"keys": [...]}\<close>;
  the structure mapping maps entity names to metadata.
\<close>

type_synonym metadata = "string list dict"
type_synonym structure_mapping = "metadata dict"

text \<open>
  \<^verbatim>\<open>str(n)\<close> of an integer, as the f-strings of \<^verbatim>\<open>connect_to_db\<close> format the port.
  \<open>digit\<close> is the decimal digit of a number below ten and the lower-case
  hexadecimal digit of one below sixteen.
\<close>

definition digit :: "nat \<Rightarrow> char" where
  "digit n = ''0123456789abcdef'' ! (n mod 16)"

fun str_nat :: "nat \<Rightarrow> string" where
  "str_nat n = (if n < 10 then [digit n] else str_nat (n div 10) @ [digit (n mod 10)])"

definition str_int :: "int \<Rightarrow> string" where
  "str_int i = (if i < 0 then ''-'' @ str_nat (nat (- i)) else str_nat (nat i))"

text \<open>The apostrophe, which a string literal cannot end with.\<close>

abbreviation apostrophe :: string where
  "apostrophe \<equiv> [CHR 0x27]"

section \<open>The database clients\<close>

text \<open>
  The clients are libraries: the model takes what their calls give as given. A call
  either raises or returns; a result that the script iterates lazily (a generator) is
  the list of the items it yields and the exception that ends it, if one does.
\<close>

type_synonym 'a iterable = "'a list \<times> exn option"

text \<open>
  A DB-API cursor (psycopg2, mysql.connector, pyodbc, sqlite3). \<open>execute\<close> says
  whether running a statement raises; \<open>fetchall\<close> gives the rows of the statement
  executed last, each row the tuple of its fields.
\<close>

type_synonym row = "string list"

record cursor =
  execute :: "string \<Rightarrow> exn option"
  fetchall :: "string \<Rightarrow> exn + row list"

text \<open>
  A MongoDB database: \<open>list_collection_names\<close>, and \<open>find_one\<close> for
  \<^verbatim>\<open>conn[col].find_one()\<close>, which gives a document or \<^verbatim>\<open>None\<close>. A document is
  a dict; only its keys matter here.
\<close>

type_synonym document = "string dict"

record mongo_database =
  list_collection_names :: "exn + string list"
  find_one :: "string \<Rightarrow> exn + document option"

text \<open>
  A Firestore collection: its \<^verbatim>\<open>id\<close>, and the \<^verbatim>\<open>to_dict()\<close> of the documents
  that \<^verbatim>\<open>stream()\<close> yields.
\<close>

record firestore_collection =
  collection_id :: string
  stream :: "document iterable"

text \<open>
  The object that \<^verbatim>\<open>connect_to_db\<close> returns, by class: a DB-API connection is what
  its \<^verbatim>\<open>cursor()\<close> gives; a DynamoDB table is not read at all; a Firestore client
  is what \<^verbatim>\<open>collections()\<close> yields; a BigQuery client is the names of the schema
  fields of \<^verbatim>\<open>query(q).result()\<close>.
\<close>

datatype conn =
    SqlConnection "exn + cursor"
  | MongoDatabase mongo_database
  | DynamoTable
  | FirestoreClient "firestore_collection iterable"
  | BigQueryClient "string \<Rightarrow> exn + string list"

text \<open>
  The constructors that \<^verbatim>\<open>connect_to_db\<close> calls, in the order of its branches.
  An object that is only passed on is the function of its one method:
  \<^verbatim>\<open>MongoClient(uri)[db_name]\<close>, \<^verbatim>\<open>Session(...).resource(name).Table(name)\<close>.
  \<open>truth\<close> is \<^verbatim>\<open>bool(conn)\<close>, which the class of the object decides.
\<close>

record library =
  psycopg2_connect :: "string \<Rightarrow> int \<Rightarrow> string \<Rightarrow> string \<Rightarrow> string \<Rightarrow> exn + (exn + cursor)"
  mysql_connector_connect :: "string \<Rightarrow> int \<Rightarrow> string \<Rightarrow> string \<Rightarrow> string \<Rightarrow> exn + (exn + cursor)"
  pyodbc_connect :: "string \<Rightarrow> exn + (exn + cursor)"
  sqlite3_connect :: "string \<Rightarrow> exn + (exn + cursor)"
  MongoClient :: "string \<Rightarrow> exn + (string \<Rightarrow> exn + mongo_database)"
  boto3_Session :: "string \<Rightarrow> string \<Rightarrow> string \<Rightarrow> exn + (string \<Rightarrow> exn + (string \<Rightarrow> exn option))"
  credentials_Certificate :: "string \<Rightarrow> exn + string"
  initialize_app :: "string \<Rightarrow> exn option"
  firestore_client :: "exn + firestore_collection iterable"
  from_service_account_json :: "string \<Rightarrow> exn + (string \<Rightarrow> exn + string list)"
  truth :: "conn \<Rightarrow> exn + bool"

section \<open>The Connector: connect_to_db\<close>

text \<open>
  The body of the \<^verbatim>\<open>try\<close> (lines 48-81): the \<^verbatim>\<open>if\<close>/\<^verbatim>\<open>elif\<close> chain over
  \<open>db_choice\<close>, then \<^verbatim>\<open>return conn\<close>. When no branch ran, \<^verbatim>\<open>conn\<close> was never
  assigned and \<^verbatim>\<open>return conn\<close> raises \<^verbatim>\<open>UnboundLocalError\<close>.
\<close>

definition try_connect ::
  "library \<Rightarrow> string \<Rightarrow> string \<Rightarrow> int \<Rightarrow> string \<Rightarrow> string \<Rightarrow> string \<Rightarrow> string
     \<Rightarrow> string \<Rightarrow> string \<Rightarrow> string \<Rightarrow> exn + conn" where
  "try_connect lib db_choice host port db_name username password db_file
       aws_access_key aws_secret_key region =
     (if db_choice = ''PostgreSQL'' then
        (case psycopg2_connect lib host port db_name username password of
           Inl e \<Rightarrow> Inl e
         | Inr c \<Rightarrow> Inr (SqlConnection c))
      else if db_choice = ''MySQL'' then
        (case mysql_connector_connect lib host port db_name username password of
           Inl e \<Rightarrow> Inl e
         | Inr c \<Rightarrow> Inr (SqlConnection c))
      else if db_choice = ''Microsoft SQL Server'' then
        (case pyodbc_connect lib
                (''DRIVER={ODBC Driver 17 for SQL Server};SERVER='' @ host @ '';PORT='' @
                 str_int port @ '';DATABASE='' @ db_name @ '';UID='' @ username @
                 '';PWD='' @ password) of
           Inl e \<Rightarrow> Inl e
         | Inr c \<Rightarrow> Inr (SqlConnection c))
      else if db_choice = ''SQLite'' then
        (case sqlite3_connect lib db_file of
           Inl e \<Rightarrow> Inl e
         | Inr c \<Rightarrow> Inr (SqlConnection c))
      else if db_choice = ''MongoDB'' then
        (case MongoClient lib
                (''mongodb://'' @ username @ '':'' @ password @ ''@'' @ host @ '':'' @
                 str_int port @ ''/'' @ db_name) of
           Inl e \<Rightarrow> Inl e
         | Inr client \<Rightarrow>
             (case client db_name of
                Inl e \<Rightarrow> Inl e
              | Inr db \<Rightarrow> Inr (MongoDatabase db)))
      else if db_choice = ''Amazon DynamoDB'' then
        (case boto3_Session lib aws_access_key aws_secret_key region of
           Inl e \<Rightarrow> Inl e
         | Inr session \<Rightarrow>
             (case session ''dynamodb'' of
                Inl e \<Rightarrow> Inl e
              | Inr dynamodb \<Rightarrow>
                  (case dynamodb db_name of
                     Some e \<Rightarrow> Inl e
                   | None \<Rightarrow> Inr DynamoTable)))
      else if db_choice = ''Firestore'' then
        (case credentials_Certificate lib ''path_to_your_service_account_file.json'' of
           Inl e \<Rightarrow> Inl e
         | Inr cred \<Rightarrow>
             (case initialize_app lib cred of
                Some e \<Rightarrow> Inl e
              | None \<Rightarrow>
                  (case firestore_client lib of
                     Inl e \<Rightarrow> Inl e
                   | Inr c \<Rightarrow> Inr (FirestoreClient c))))
      else if db_choice = ''BigQuery'' then
        (case from_service_account_json lib ''path_to_your_service_account_file.json'' of
           Inl e \<Rightarrow> Inl e
         | Inr client \<Rightarrow> Inr (BigQueryClient client))
      else
        Inl (Exception ''UnboundLocalError''
          (''cannot access local variable '' @ apostrophe @ ''conn'' @ apostrophe @
           '' where it is not associated with a value'')))"

text \<open>
  \<^verbatim>\<open>connect_to_db\<close> (lines 46-84): the \<^verbatim>\<open>except Exception\<close> clause shows the
  error and returns \<^verbatim>\<open>None\<close>. The result is the returned value and what the call
  showed.
\<close>

definition connect_to_db ::
  "library \<Rightarrow> string \<Rightarrow> string \<Rightarrow> int \<Rightarrow> string \<Rightarrow> string \<Rightarrow> string \<Rightarrow> string
     \<Rightarrow> string \<Rightarrow> string \<Rightarrow> string \<Rightarrow> conn option \<times> ui list" where
  "connect_to_db lib db_choice host port db_name username password db_file
       aws_access_key aws_secret_key region =
     (case try_connect lib db_choice host port db_name username password db_file
             aws_access_key aws_secret_key region of
        Inr conn \<Rightarrow> (Some conn, [])
      | Inl e \<Rightarrow>
          (None, [st_error (''Error connecting to '' @ db_choice @ '': '' @ str_exn e)]))"

section \<open>The Introspector: analyze_db_structure\<close>

text \<open>
  \<^verbatim>\<open>row[i]\<close> raises \<^verbatim>\<open>IndexError\<close> past the end of the row. A method of another
  class than the one the branch expects is not there to call.
\<close>

definition subscript :: "row \<Rightarrow> nat \<Rightarrow> exn + string" where
  "subscript r i =
     (if i < length r then Inr (r ! i)
      else Inl (Exception ''IndexError'' ''tuple index out of range''))"

text \<open>
  What calling \<^verbatim>\<open>conn.name(...)\<close> raises when \<^verbatim>\<open>conn\<close> is an object of another
  class than the branch expects. Most classes have no such attribute, and the message
  names the class (for a DB-API connection the name is the driver's; the model writes
  \<^verbatim>\<open>Connection\<close>). A pymongo database takes any attribute for a collection, and the
  collection is not callable. A DynamoDB table has a \<^verbatim>\<open>query\<close> method, which takes
  keyword arguments only.
\<close>

definition no_attribute :: "string \<Rightarrow> string \<Rightarrow> exn" where
  "no_attribute cls name =
     Exception ''AttributeError''
       (apostrophe @ cls @ apostrophe @ '' object has no attribute '' @
        apostrophe @ name @ apostrophe)"

definition no_method :: "conn \<Rightarrow> string \<Rightarrow> exn" where
  "no_method conn name =
     (case conn of
        SqlConnection c \<Rightarrow> no_attribute ''Connection'' name
      | MongoDatabase db \<Rightarrow>
          Exception ''TypeError''
            (apostrophe @ ''Collection'' @ apostrophe @
             '' object is not callable. If you meant to call the '' @
             apostrophe @ name @ apostrophe @ '' method on a '' @
             apostrophe @ ''Database'' @ apostrophe @
             '' object it is failing because no such method exists.'')
      | DynamoTable \<Rightarrow>
          if name = ''query''
          then Exception ''TypeError'' ''query() only accepts keyword arguments.''
          else no_attribute ''dynamodb.Table'' name
      | FirestoreClient collections \<Rightarrow> no_attribute ''Client'' name
      | BigQueryClient schema \<Rightarrow> no_attribute ''Client'' name)"

text \<open>A list comprehension whose element expression may raise.\<close>

fun comprehension :: "('a \<Rightarrow> exn + 'b) \<Rightarrow> 'a list \<Rightarrow> exn + 'b list" where
  "comprehension f [] = Inr []"
| "comprehension f (x # xs) =
     (case f x of
        Inl e \<Rightarrow> Inl e
      | Inr y \<Rightarrow>
          (case comprehension f xs of
             Inl e \<Rightarrow> Inl e
           | Inr ys \<Rightarrow> Inr (y # ys)))"

text \<open>
  A \<^verbatim>\<open>for\<close> loop whose body updates \<^verbatim>\<open>db_structure\<close> in place: an exception
  ends the loop, and the dict keeps what was stored before.
\<close>

fun for_each ::
  "('a \<Rightarrow> 's \<Rightarrow> 's \<times> exn option) \<Rightarrow> 'a list \<Rightarrow> 's \<Rightarrow> 's \<times> exn option" where
  "for_each body [] s = (s, None)"
| "for_each body (x # xs) s =
     (case body x s of
        (s', Some e) \<Rightarrow> (s', Some e)
      | (s', None) \<Rightarrow> for_each body xs s')"

definition iterate ::
  "('a \<Rightarrow> 's \<Rightarrow> 's \<times> exn option) \<Rightarrow> 'a iterable \<Rightarrow> 's \<Rightarrow> 's \<times> exn option" where
  "iterate body it s =
     (case for_each body (fst it) s of
        (s', Some e) \<Rightarrow> (s', Some e)
      | (s', None) \<Rightarrow> (s', snd it))"

text \<open>
  \<^verbatim>\<open>cursor.execute(q)\<close> followed by \<^verbatim>\<open>cursor.fetchall()\<close>.
\<close>

definition run_query :: "cursor \<Rightarrow> string \<Rightarrow> exn + row list" where
  "run_query cur q = (case execute cur q of Some e \<Rightarrow> Inl e | None \<Rightarrow> fetchall cur q)"

text \<open>
  The body of the loop over the tables (lines 97-100 with \<open>field = 0\<close> and the
  information_schema query, lines 107-110 with \<open>field = 1\<close> and the pragma): the item
  is stored last, so an exception leaves the dict as it was.
\<close>

definition table_entry ::
  "cursor \<Rightarrow> (string \<Rightarrow> string) \<Rightarrow> nat \<Rightarrow> row \<Rightarrow> structure_mapping
     \<Rightarrow> structure_mapping \<times> exn option" where
  "table_entry cur column_query field table db_structure =
     (case subscript table 0 of
        Inl e \<Rightarrow> (db_structure, Some e)
      | Inr table_name \<Rightarrow>
          (case run_query cur (column_query table_name) of
             Inl e \<Rightarrow> (db_structure, Some e)
           | Inr columns \<Rightarrow>
               (case comprehension (\<lambda>col. subscript col field) columns of
                  Inl e \<Rightarrow> (db_structure, Some e)
                | Inr names \<Rightarrow> (setitem db_structure table_name [(''columns'', names)], None))))"

definition information_schema_columns :: "string \<Rightarrow> string" where
  "information_schema_columns table_name =
     ''SELECT column_name FROM information_schema.columns WHERE table_name = '' @
     apostrophe @ table_name @ apostrophe"

definition pragma_table_info :: "string \<Rightarrow> string" where
  "pragma_table_info table_name = ''PRAGMA table_info('' @ table_name @ '')''"

definition information_schema_tables :: string where
  "information_schema_tables =
     ''SELECT table_name FROM information_schema.tables WHERE table_schema = '' @
     apostrophe @ ''public'' @ apostrophe"

definition sqlite_master_tables :: string where
  "sqlite_master_tables =
     ''SELECT name FROM sqlite_master WHERE type='' @ apostrophe @ ''table'' @ apostrophe @ '';''"

text \<open>
  The two relational branches (lines 93-100 and 103-110) differ in the queries and in the
  field read from each column row.
\<close>

definition analyze_tables ::
  "conn \<Rightarrow> string \<Rightarrow> (string \<Rightarrow> string) \<Rightarrow> nat \<Rightarrow> structure_mapping
     \<Rightarrow> structure_mapping \<times> exn option" where
  "analyze_tables conn table_query column_query field db_structure =
     (case conn of
        SqlConnection (Inr cur) \<Rightarrow>
          (case run_query cur table_query of
             Inl e \<Rightarrow> (db_structure, Some e)
           | Inr tables \<Rightarrow> for_each (table_entry cur column_query field) tables db_structure)
      | SqlConnection (Inl e) \<Rightarrow> (db_structure, Some e)
      | _ \<Rightarrow> (db_structure, Some (no_method conn ''cursor'')))"

text \<open>
  The MongoDB branch (lines 113-118). \<^verbatim>\<open>if sample:\<close> is false for \<^verbatim>\<open>None\<close> and for
  an empty document.
\<close>

definition collection_entry ::
  "mongo_database \<Rightarrow> string \<Rightarrow> structure_mapping \<Rightarrow> structure_mapping \<times> exn option" where
  "collection_entry db col db_structure =
     (case find_one db col of
        Inl e \<Rightarrow> (db_structure, Some e)
      | Inr None \<Rightarrow> (db_structure, None)
      | Inr (Some sample) \<Rightarrow>
          (if sample \<noteq> [] then (setitem db_structure col [(''keys'', map fst sample)], None)
           else (db_structure, None)))"

definition analyze_mongodb ::
  "conn \<Rightarrow> structure_mapping \<Rightarrow> structure_mapping \<times> exn option" where
  "analyze_mongodb conn db_structure =
     (case conn of
        MongoDatabase db \<Rightarrow>
          (case list_collection_names db of
             Inl e \<Rightarrow> (db_structure, Some e)
           | Inr collections \<Rightarrow> for_each (collection_entry db) collections db_structure)
      | _ \<Rightarrow> (db_structure, Some (no_method conn ''list_collection_names'')))"

text \<open>
  The Firestore branch (lines 124-128): every document of a collection overwrites the
  collection's item.
\<close>

definition analyze_firestore ::
  "conn \<Rightarrow> structure_mapping \<Rightarrow> structure_mapping \<times> exn option" where
  "analyze_firestore conn db_structure =
     (case conn of
        FirestoreClient collections \<Rightarrow>
          iterate
            (\<lambda>col. iterate
               (\<lambda>doc s. (setitem s (collection_id col) [(''keys'', map fst doc)], None))
               (stream col))
            collections db_structure
      | _ \<Rightarrow> (db_structure, Some (no_method conn ''collections'')))"

text \<open>The BigQuery branch (lines 131-133).\<close>

definition analyze_bigquery ::
  "conn \<Rightarrow> string \<Rightarrow> structure_mapping \<Rightarrow> structure_mapping \<times> exn option" where
  "analyze_bigquery conn db_choice db_structure =
     (case conn of
        BigQueryClient schema \<Rightarrow>
          (case schema (''SELECT * FROM `'' @ db_choice @ ''` LIMIT 1'') of
             Inl e \<Rightarrow> (db_structure, Some e)
           | Inr names \<Rightarrow> (setitem db_structure db_choice [(''columns'', names)], None))
      | _ \<Rightarrow> (db_structure, Some (no_method conn ''query'')))"

text \<open>
  The body of the \<^verbatim>\<open>try\<close> (lines 92-133), started on the empty dict of line 89.
\<close>

definition try_analyze :: "conn \<Rightarrow> string \<Rightarrow> structure_mapping \<times> exn option" where
  "try_analyze conn db_choice =
     (if db_choice = ''PostgreSQL'' \<or> db_choice = ''MySQL'' \<or> db_choice = ''Microsoft SQL Server''
      then analyze_tables conn information_schema_tables information_schema_columns 0 []
      else if db_choice = ''SQLite''
      then analyze_tables conn sqlite_master_tables pragma_table_info 1 []
      else if db_choice = ''MongoDB'' then analyze_mongodb conn []
      else if db_choice = ''Amazon DynamoDB''
      then (setitem [] db_choice [(''columns'', [''Primary Key'', ''Attributes''])], None)
      else if db_choice = ''Firestore'' then analyze_firestore conn []
      else if db_choice = ''BigQuery'' then analyze_bigquery conn db_choice []
      else ([], None))"

text \<open>
  \<^verbatim>\<open>analyze_db_structure\<close> (lines 88-138): the \<^verbatim>\<open>except Exception\<close> clause shows the
  error, and line 138 returns the dict either way. The result is the returned dict and
  what the call showed.
\<close>

definition analyze_db_structure :: "conn \<Rightarrow> string \<Rightarrow> structure_mapping \<times> ui list" where
  "analyze_db_structure conn db_choice =
     (case try_analyze conn db_choice of
        (db_structure, None) \<Rightarrow> (db_structure, [])
      | (db_structure, Some e) \<Rightarrow>
          (db_structure,
           [st_error (''Error analyzing structure for '' @ db_choice @ '': '' @ str_exn e)]))"

section \<open>The Endpoint Synthesizer: generate_fastapi_api\<close>

text \<open>
  The handlers defined in the loop are closures: each holds its code and a reference to
  the activation frame of the call of \<^verbatim>\<open>generate_fastapi_api\<close> that defined it. The
  frame holds the cells of the variables the handlers read, \<^verbatim>\<open>table\<close>,
  \<^verbatim>\<open>columns\<close> and \<^verbatim>\<open>keys\<close>; a cell is \<open>None\<close> until its first assignment.
  Frames live in a store addressed by position, so that all handlers of one call share one
  frame and see its later assignments.
\<close>

record frame =
  f_table :: "string option"
  f_columns :: "string list option"
  f_keys :: "string list option"

datatype code = get_table_data | get_collection_data

type_synonym handler = "code \<times> nat"

text \<open>
  The module-level \<^verbatim>\<open>app\<close> with its routes in registration order, and the store of
  frames.
\<close>

record server =
  routes :: "(string \<times> handler) list"
  frames :: "frame list"

definition assign :: "nat \<Rightarrow> (frame \<Rightarrow> frame) \<Rightarrow> server \<Rightarrow> server" where
  "assign a upd srv = srv\<lparr>frames := (frames srv)[a := upd (frames srv ! a)]\<rparr>"

text \<open>
  \<^verbatim>\<open>@app.get(path)\<close> applied to a handler: FastAPI builds the route for the path, which
  may raise (\<open>route_error\<close> says for which paths; FastAPI does not refuse a path
  that is registered already), and appends it to the routes.
\<close>

definition app_get ::
  "(string \<Rightarrow> exn option) \<Rightarrow> string \<Rightarrow> handler \<Rightarrow> server \<Rightarrow> exn + server" where
  "app_get route_error path h srv =
     (case route_error path of
        Some e \<Rightarrow> Inl e
      | None \<Rightarrow> Inr (srv\<lparr>routes := routes srv @ [(path, h)]\<rparr>))"

text \<open>
  The first \<^verbatim>\<open>if\<close> of the loop body (lines 145-155). The membership test and the
  subscript are one lookup. The state is the endpoints dict and the server; when the
  registration raises, the assignment to \<^verbatim>\<open>columns\<close> has happened and the one to
  \<^verbatim>\<open>endpoints\<close> has not.
\<close>

definition columns_branch ::
  "(string \<Rightarrow> exn option) \<Rightarrow> nat \<Rightarrow> string \<Rightarrow> metadata \<Rightarrow> string dict \<times> server
     \<Rightarrow> (string dict \<times> server) \<times> exn option" where
  "columns_branch route_error a table metadata s =
     (case map_of metadata ''columns'' of
        None \<Rightarrow> (s, None)
      | Some columns \<Rightarrow>
          (let srv1 = assign a (\<lambda>f. f\<lparr>f_columns := Some columns\<rparr>) (snd s);
               endpoint = ''/'' @ table @ ''/{id}''
           in case app_get route_error endpoint (get_table_data, a) srv1 of
                Inl e \<Rightarrow> ((fst s, srv1), Some e)
              | Inr srv2 \<Rightarrow> ((setitem (fst s) table endpoint, srv2), None)))"

text \<open>The second \<^verbatim>\<open>if\<close> of the loop body (lines 156-162).\<close>

definition keys_branch ::
  "(string \<Rightarrow> exn option) \<Rightarrow> nat \<Rightarrow> string \<Rightarrow> metadata \<Rightarrow> string dict \<times> server
     \<Rightarrow> (string dict \<times> server) \<times> exn option" where
  "keys_branch route_error a table metadata s =
     (case map_of metadata ''keys'' of
        None \<Rightarrow> (s, None)
      | Some keys \<Rightarrow>
          (let srv1 = assign a (\<lambda>f. f\<lparr>f_keys := Some keys\<rparr>) (snd s)
           in case app_get route_error (''/'' @ table) (get_collection_data, a) srv1 of
                Inl e \<Rightarrow> ((fst s, srv1), Some e)
              | Inr srv2 \<Rightarrow> ((setitem (fst s) table (''/'' @ table), srv2), None)))"

text \<open>
  The loop over \<^verbatim>\<open>db_structure.items()\<close> (line 144): each iteration assigns
  \<^verbatim>\<open>table\<close>, then runs the two \<^verbatim>\<open>if\<close> statements, one after the other. An
  exception ends the loop with the state reached.
\<close>

fun for_items ::
  "(string \<Rightarrow> exn option) \<Rightarrow> nat \<Rightarrow> structure_mapping \<Rightarrow> string dict \<times> server
     \<Rightarrow> (string dict \<times> server) \<times> exn option" where
  "for_items route_error a [] s = (s, None)"
| "for_items route_error a ((table, metadata) # rest) s =
     (let s0 = (fst s, assign a (\<lambda>f. f\<lparr>f_table := Some table\<rparr>) (snd s))
      in case columns_branch route_error a table metadata s0 of
           (s1, Some e) \<Rightarrow> (s1, Some e)
         | (s1, None) \<Rightarrow>
             (case keys_branch route_error a table metadata s1 of
                (s2, Some e) \<Rightarrow> (s2, Some e)
              | (s2, None) \<Rightarrow> for_items route_error a rest s2))"

text \<open>
  \<^verbatim>\<open>generate_fastapi_api(db_structure)\<close> (lines 141-167). The call gets a fresh frame
  at the end of the store. \<open>db_choice\<close> is the module's global, read by the
  \<^verbatim>\<open>except\<close> clause. The result is the returned endpoints dict, the server after
  the call and what the call showed.
\<close>

definition generate_fastapi_api ::
  "(string \<Rightarrow> exn option) \<Rightarrow> string \<Rightarrow> structure_mapping \<Rightarrow> server
     \<Rightarrow> string dict \<times> server \<times> ui list" where
  "generate_fastapi_api route_error db_choice db_structure srv =
     (let a = length (frames srv);
          srv0 = srv\<lparr>frames := frames srv @ [\<lparr>f_table = None, f_columns = None, f_keys = None\<rparr>]\<rparr>
      in case for_items route_error a db_structure ([], srv0) of
           ((endpoints, srv1), None) \<Rightarrow> (endpoints, srv1, [])
         | ((endpoints, srv1), Some e) \<Rightarrow>
             (endpoints, srv1,
              [st_error (''Error generating API for '' @ db_choice @ '': '' @ str_exn e)]))"


text \<open>
  Calling a handler reads the cells of its frame at the time of the call. Reading a cell
  that was never assigned raises \<^verbatim>\<open>NameError\<close>. \<^verbatim>\<open>get_table_data(id)\<close> builds
  the query string first, then the dict (lines 153-154); \<^verbatim>\<open>get_collection_data()\<close>
  takes no argument (line 161).
\<close>

definition unbound :: "string \<Rightarrow> exn" where
  "unbound v = Exception ''NameError''
     (''cannot access free variable '' @ v @ '' where it is not associated with a value in enclosing scope'')"




section \<open>The text that json.dumps and json.dump write\<close>

text \<open>
  The script serialises the structure mapping with the standard \<^verbatim>\<open>json\<close> module, with
  its defaults (\<^verbatim>\<open>ensure_ascii=True\<close>, separators \<^verbatim>\<open>", "\<close> and \<^verbatim>\<open>": "\<close>) on
  line 206 and with \<^verbatim>\<open>indent=4\<close> on line 201. Inside a string the quote and the
  backslash are escaped with a backslash, the control characters with a short escape
  (\<^verbatim>\<open>\n\<close>, \<^verbatim>\<open>\r\<close>, \<^verbatim>\<open>\t\<close>, \<^verbatim>\<open>\b\<close>, \<^verbatim>\<open>\f\<close>) where there is one, and every
  other character outside the printable ASCII range as \<^verbatim>\<open>\u00xx\<close>.
\<close>

definition escape :: "char \<Rightarrow> string" where
  "escape c =
     (if c = CHR 0x22 then [CHR 0x5C, CHR 0x22]
      else if c = CHR 0x5C then [CHR 0x5C, CHR 0x5C]
      else if c = CHR 0x0A then [CHR 0x5C, CHR ''n'']
      else if c = CHR 0x0D then [CHR 0x5C, CHR ''r'']
      else if c = CHR 0x09 then [CHR 0x5C, CHR ''t'']
      else if c = CHR 0x08 then [CHR 0x5C, CHR ''b'']
      else if c = CHR 0x0C then [CHR 0x5C, CHR ''f'']
      else if (of_char c :: nat) < 0x20 \<or> 0x7E < (of_char c :: nat)
      then [CHR 0x5C, CHR ''u'', CHR ''0'', CHR ''0'',
            digit (of_char c div 16), digit (of_char c mod 16)]
      else [c])"

definition dumps_string :: "string \<Rightarrow> string" where
  "dumps_string s = [CHR 0x22] @ concat (map escape s) @ [CHR 0x22]"

text \<open>\<^verbatim>\<open>sep.join(parts)\<close>.\<close>

fun join :: "string \<Rightarrow> string list \<Rightarrow> string" where
  "join sep [] = []"
| "join sep [x] = x"
| "join sep (x # y # ys) = x @ sep @ join sep (y # ys)"

definition dumps_list :: "string list \<Rightarrow> string" where
  "dumps_list xs =
     (if xs = [] then ''[]'' else ''['' @ join '', '' (map dumps_string xs) @ '']'')"

definition dumps_dict :: "('v \<Rightarrow> string) \<Rightarrow> 'v dict \<Rightarrow> string" where
  "dumps_dict dumps_value d =
     (if d = [] then ''{}''
      else ''{'' @ join '', '' (map (\<lambda>(k, v). dumps_string k @ '': '' @ dumps_value v) d) @ ''}'')"

definition json_dumps :: "structure_mapping \<Rightarrow> string" where
  "json_dumps db_structure = dumps_dict (dumps_dict dumps_list) db_structure"

text \<open>With \<^verbatim>\<open>indent=4\<close>: one item per line, four spaces per level of nesting.\<close>

definition newline_indent :: "nat \<Rightarrow> string" where
  "newline_indent level = CHR 0x0A # replicate (4 * level) (CHR '' '')"

definition dumps_list_indent :: "nat \<Rightarrow> string list \<Rightarrow> string" where
  "dumps_list_indent level xs =
     (if xs = [] then ''[]''
      else ''['' @ newline_indent (level + 1) @
           join ('','' @ newline_indent (level + 1)) (map dumps_string xs) @
           newline_indent level @ '']'')"

definition dumps_dict_indent :: "(nat \<Rightarrow> 'v \<Rightarrow> string) \<Rightarrow> nat \<Rightarrow> 'v dict \<Rightarrow> string" where
  "dumps_dict_indent dumps_value level d =
     (if d = [] then ''{}''
      else ''{'' @ newline_indent (level + 1) @
           join ('','' @ newline_indent (level + 1))
             (map (\<lambda>(k, v). dumps_string k @ '': '' @ dumps_value (level + 1) v) d) @
           newline_indent level @ ''}'')"

definition json_dumps_indent4 :: "structure_mapping \<Rightarrow> string" where
  "json_dumps_indent4 db_structure =
     dumps_dict_indent (dumps_dict_indent dumps_list_indent) 0 db_structure"

section \<open>The Analyze action\<close>

text \<open>The values of the input widgets (lines 173-187).\<close>

record form =
  in_db_choice :: string
  in_host :: string
  in_port :: int
  in_db_name :: string
  in_username :: string
  in_password :: string
  in_db_file :: string
  in_aws_access_key :: string
  in_aws_secret_key :: string
  in_region :: string

text \<open>
  What one run of the script leaves behind when the button is pressed: what it showed,
  the files, the module's global \<^verbatim>\<open>db_structure\<close> (\<open>None\<close> while the name is
  unbound), the server, and the exception that ended the run, if one did.
\<close>

record outcome =
  shown :: "ui list"
  files :: "string \<Rightarrow> string option"
  db_structure_global :: "structure_mapping option"
  app :: server
  raised :: "exn option"

text \<open>
  Lines 203-209: \<^verbatim>\<open>open(name, "w")\<close> may raise (\<open>open_error\<close>); otherwise the file
  holds the dumped text and the success message is shown.
\<close>

definition save_structure ::
  "(string \<Rightarrow> exn option) \<Rightarrow> structure_mapping \<Rightarrow> outcome \<Rightarrow> outcome" where
  "save_structure open_error db_structure w =
     (case open_error ''db_structure.json'' of
        None \<Rightarrow>
          w\<lparr>files := (files w)(''db_structure.json'' \<mapsto> json_dumps db_structure),
            shown := shown w @
              [st_success (''Database structure saved to '' @ apostrophe @
                 ''db_structure.json'' @ apostrophe)]\<rparr>
      | Some e \<Rightarrow>
          w\<lparr>shown := shown w @ [st_error (''Error saving database structure: '' @ str_exn e)]\<rparr>)"

text \<open>
  Lines 196-209, the body of \<^verbatim>\<open>if st.button("Analyze DB Details")\<close>. The truth value
  of \<^verbatim>\<open>None\<close> is false; that of a connection object is its class's, and computing it
  is outside every \<^verbatim>\<open>try\<close>.
\<close>

definition analyze_db_details ::
  "library \<Rightarrow> (string \<Rightarrow> exn option) \<Rightarrow> form \<Rightarrow> (string \<Rightarrow> string option) \<Rightarrow> server
     \<Rightarrow> outcome" where
  "analyze_db_details lib open_error inp fs srv =
     (let (conn, msgs) =
            connect_to_db lib (in_db_choice inp) (in_host inp) (in_port inp) (in_db_name inp)
              (in_username inp) (in_password inp) (in_db_file inp)
              (in_aws_access_key inp) (in_aws_secret_key inp) (in_region inp);
          w = \<lparr>shown = msgs, files = fs, db_structure_global = None, app = srv, raised = None\<rparr>
      in case conn of
           None \<Rightarrow> w
         | Some c \<Rightarrow>
             (case truth lib c of
                Inl e \<Rightarrow> w\<lparr>raised := Some e\<rparr>
              | Inr False \<Rightarrow> w
              | Inr True \<Rightarrow>
                  (let (db_structure, msgs2) = analyze_db_structure c (in_db_choice inp);
                       w1 = w\<lparr>shown := shown w @ msgs2 @
                                 [st_write ''Database Structure:'' (json_dumps_indent4 db_structure)],
                              db_structure_global := Some db_structure\<rparr>
                   in save_structure open_error db_structure w1)))"

section \<open>Notions for the statements\<close>

text \<open>
  What one item of the structure mapping adds when no registration raises: the routes it
  registers, the endpoints dict after it, and the frame after it. They follow the two
  \<^verbatim>\<open>if\<close> statements of the loop body in their order.
\<close>

definition entity_routes :: "nat \<Rightarrow> string \<times> metadata \<Rightarrow> (string \<times> handler) list" where
  "entity_routes a = (\<lambda>(table, metadata).
     (case map_of metadata ''columns'' of
        None \<Rightarrow> []
      | Some columns \<Rightarrow> [(''/'' @ table @ ''/{id}'', (get_table_data, a))]) @
     (case map_of metadata ''keys'' of
        None \<Rightarrow> []
      | Some keys \<Rightarrow> [(''/'' @ table, (get_collection_data, a))]))"

definition entity_endpoints :: "string dict \<Rightarrow> string \<times> metadata \<Rightarrow> string dict" where
  "entity_endpoints eps = (\<lambda>(table, metadata).
     (let eps1 = (case map_of metadata ''columns'' of
                    None \<Rightarrow> eps
                  | Some columns \<Rightarrow> setitem eps table (''/'' @ table @ ''/{id}''))
      in case map_of metadata ''keys'' of
           None \<Rightarrow> eps1
         | Some keys \<Rightarrow> setitem eps1 table (''/'' @ table)))"

definition entity_frame :: "frame \<Rightarrow> string \<times> metadata \<Rightarrow> frame" where
  "entity_frame f = (\<lambda>(table, metadata).
     f\<lparr>f_table := Some table,
       f_columns := (case map_of metadata ''columns'' of None \<Rightarrow> f_columns f | Some c \<Rightarrow> Some c),
       f_keys := (case map_of metadata ''keys'' of None \<Rightarrow> f_keys f | Some k \<Rightarrow> Some k)\<rparr>)"

text \<open>
  An entity is columnar when its metadata has a \<^verbatim>\<open>"columns"\<close> list and key-based when
  it has a \<^verbatim>\<open>"keys"\<close> list; \<open>has_list\<close> holds when it has one of the two.
  \<open>column_lists\<close> are the column lists of the columnar entities in iteration order.
  \<open>entity_endpoint\<close> is the item that the returned dict holds for an entity with a
  list.
\<close>

definition columnar :: "metadata \<Rightarrow> bool" where
  "columnar metadata = (map_of metadata ''columns'' \<noteq> None)"

definition key_based :: "metadata \<Rightarrow> bool" where
  "key_based metadata = (map_of metadata ''keys'' \<noteq> None)"

definition has_list :: "string \<times> metadata \<Rightarrow> bool" where
  "has_list = (\<lambda>(table, metadata). columnar metadata \<or> key_based metadata)"


definition entity_endpoint :: "string \<times> metadata \<Rightarrow> string \<times> string" where
  "entity_endpoint = (\<lambda>(table, metadata).
     (table, if key_based metadata then ''/'' @ table else ''/'' @ table @ ''/{id}''))"


definition columns_raises :: "(string \<Rightarrow> exn option) \<Rightarrow> string \<times> metadata \<Rightarrow> bool" where
  "columns_raises route_error = (\<lambda>(table, metadata).
     columnar metadata \<and> route_error (''/'' @ table @ ''/{id}'') \<noteq> None)"

definition keys_raises :: "(string \<Rightarrow> exn option) \<Rightarrow> string \<times> metadata \<Rightarrow> bool" where
  "keys_raises route_error = (\<lambda>(table, metadata).
     key_based metadata \<and> route_error (''/'' @ table) \<noteq> None)"








text \<open>
  The exception of \<^verbatim>\<open>return conn\<close> when no branch of \<^verbatim>\<open>connect_to_db\<close> assigned
  \<^verbatim>\<open>conn\<close>.
\<close>

definition unbound_conn :: exn where
  "unbound_conn = Exception ''UnboundLocalError''
     (''cannot access local variable '' @ apostrophe @ ''conn'' @ apostrophe @
      '' where it is not associated with a value'')"

text \<open>
  What a completed iteration stores: the item of a table whose column query gives the
  rows \<open>columns_of\<close> of its name, and the item of a collection whose
  \<^verbatim>\<open>find_one\<close> does not raise. An item is sampled when it is a collection with the
  keys of its non-empty sample.
\<close>

definition columns_item :: "(string \<Rightarrow> row list) \<Rightarrow> structure_mapping \<Rightarrow> row \<Rightarrow> structure_mapping" where
  "columns_item columns_of d t = setitem d (hd t) [(''columns'', map hd (columns_of (hd t)))]"

definition keys_item :: "mongo_database \<Rightarrow> structure_mapping \<Rightarrow> string \<Rightarrow> structure_mapping" where
  "keys_item db d col =
     (case find_one db col of
        Inr (Some sample) \<Rightarrow>
          if sample \<noteq> [] then setitem d col [(''keys'', map fst sample)] else d
      | _ \<Rightarrow> d)"

definition sampled :: "mongo_database \<Rightarrow> string \<times> metadata \<Rightarrow> bool" where
  "sampled db = (\<lambda>(col, metadata).
     \<exists>sample. find_one db col = Inr (Some sample) \<and> sample \<noteq> [] \<and>
              metadata = [(''keys'', map fst sample)])"

section \<open>Example databases\<close>

text \<open>
  A library none of whose constructors gets through: each raises \<open>e\<close>. A form filled
  in for a PostgreSQL database on a host that does not resolve.
\<close>

definition offline :: "exn \<Rightarrow> library" where
  "offline e =
     \<lparr>psycopg2_connect = (\<lambda>host port db_name username password. Inl e),
      mysql_connector_connect = (\<lambda>host port db_name username password. Inl e),
      pyodbc_connect = (\<lambda>connection_string. Inl e),
      sqlite3_connect = (\<lambda>db_file. Inl e),
      MongoClient = (\<lambda>uri. Inl e),
      boto3_Session = (\<lambda>access_key secret_key region. Inl e),
      credentials_Certificate = (\<lambda>path. Inl e),
      initialize_app = (\<lambda>cred. Some e),
      firestore_client = Inl e,
      from_service_account_json = (\<lambda>path. Inl e),
      truth = (\<lambda>conn. Inr True)\<rparr>"

definition bad_host :: form where
  "bad_host =
     \<lparr>in_db_choice = ''PostgreSQL'', in_host = ''nowhere'', in_port = 5432, in_db_name = ''shop'',
      in_username = ''alice'', in_password = ''secret'', in_db_file = [],
      in_aws_access_key = [], in_aws_secret_key = [], in_region = []\<rparr>"


definition flaky_cursor :: cursor where
  "flaky_cursor =
     \<lparr>execute = (\<lambda>q.
        if q = information_schema_columns ''orders''
        then Some (Exception ''OperationalError'' ''server closed the connection'')
        else None),
      fetchall = (\<lambda>q.
        if q = information_schema_tables then Inr [[''users''], [''orders''], [''items'']]
        else if q = information_schema_columns ''users'' then Inr [[''id''], [''name'']]
        else Inr [])\<rparr>"

definition blog_database :: mongo_database where
  "blog_database =
     \<lparr>list_collection_names = Inr [''posts'', ''drafts'', ''tags''],
      find_one = (\<lambda>col.
        if col = ''posts'' then Inr (Some [(''_id'', ''1''), (''title'', ''Hello'')])
        else if col = ''tags'' then Inr (Some [(''_id'', ''7''), (''label'', ''misc'')])
        else Inr None)\<rparr>"


definition interrupted_database :: mongo_database where
  "interrupted_database =
     \<lparr>list_collection_names = Inr [''posts'', ''drafts'', ''audit''],
      find_one = (\<lambda>col.
        if col = ''posts'' then Inr (Some [(''_id'', ''1''), (''title'', ''Hello'')])
        else if col = ''drafts'' then Inr None
        else Inl (Exception ''AutoReconnect'' ''connection closed''))\<rparr>"



text \<open>
  A registrar that accepts every path but \<^verbatim>\<open>/{id}/{id}\<close>, in which a parameter name
  occurs twice: the path of a columnar entity named \<^verbatim>\<open>{id}\<close>.
\<close>

definition duplicate_id :: "string \<Rightarrow> exn option" where
  "duplicate_id path =
     (if path = ''/{id}/{id}''
      then Some (Exception ''ValueError'' ''Duplicated param name id at path /{id}/{id}'')
      else None)"

section \<open>The Connector\<close>

subsection \<open>Claim C7: connect_to_db catches every exception\<close>

text \<open>
  Claim C7. Whatever exception \<open>e\<close> the body of the \<^verbatim>\<open>try\<close> raises,
  \<^verbatim>\<open>connect_to_db\<close> returns \<^verbatim>\<open>None\<close> and shows the message of \<open>e\<close>; for a
  label that is none of the eight with a construction branch (so for \<^verbatim>\<open>"None"\<close>) no
  branch runs, \<^verbatim>\<open>return conn\<close> raises, and the call returns \<^verbatim>\<open>None\<close> all the
  same; and \<^verbatim>\<open>None\<close> is returned only when something raised.
\<close>

theorem connect_to_db_catches:
  "(try_connect lib db_choice host port db_name username password db_file
      aws_access_key aws_secret_key region = Inl e \<longrightarrow>
    connect_to_db lib db_choice host port db_name username password db_file
      aws_access_key aws_secret_key region =
      (None, [st_error (''Error connecting to '' @ db_choice @ '': '' @ str_exn e)]))
   \<and> (db_choice \<notin> set [''PostgreSQL'', ''MySQL'', ''Microsoft SQL Server'', ''SQLite'',
                          ''MongoDB'', ''Amazon DynamoDB'', ''Firestore'', ''BigQuery''] \<longrightarrow>
    try_connect lib db_choice host port db_name username password db_file
      aws_access_key aws_secret_key region = Inl unbound_conn
    \<and> connect_to_db lib db_choice host port db_name username password db_file
      aws_access_key aws_secret_key region =
      (None, [st_error (''Error connecting to '' @ db_choice @ '': '' @ str_exn unbound_conn)]))
   \<and> (fst (connect_to_db lib db_choice host port db_name username password db_file
      aws_access_key aws_secret_key region) = None \<longrightarrow>
      (\<exists>e. try_connect lib db_choice host port db_name username password db_file
         aws_access_key aws_secret_key region = Inl e))"
proof (intro conjI impI)
  assume "try_connect lib db_choice host port db_name username password db_file
            aws_access_key aws_secret_key region = Inl e"
  then show "connect_to_db lib db_choice host port db_name username password db_file
      aws_access_key aws_secret_key region =
      (None, [st_error (''Error connecting to '' @ db_choice @ '': '' @ str_exn e)])"
    by (simp add: connect_to_db_def)
next
  assume other: "db_choice \<notin> set [''PostgreSQL'', ''MySQL'', ''Microsoft SQL Server'', ''SQLite'',
                          ''MongoDB'', ''Amazon DynamoDB'', ''Firestore'', ''BigQuery'']"
  then show unbound: "try_connect lib db_choice host port db_name username password db_file
      aws_access_key aws_secret_key region = Inl unbound_conn"
    by (simp add: try_connect_def unbound_conn_def)
  then show "connect_to_db lib db_choice host port db_name username password db_file
      aws_access_key aws_secret_key region =
      (None, [st_error (''Error connecting to '' @ db_choice @ '': '' @ str_exn unbound_conn)])"
    by (simp add: connect_to_db_def)
next
  assume none: "fst (connect_to_db lib db_choice host port db_name username password db_file
      aws_access_key aws_secret_key region) = None"
  show "\<exists>e. try_connect lib db_choice host port db_name username password db_file
         aws_access_key aws_secret_key region = Inl e"
  proof (cases "try_connect lib db_choice host port db_name username password db_file
         aws_access_key aws_secret_key region")
    case (Inl e')
    then show ?thesis by blast
  next
    case (Inr c)
    then show ?thesis using none by (simp add: connect_to_db_def)
  qed
qed

text \<open>
  A host that does not resolve, and the label \<^verbatim>\<open>"None"\<close>.
\<close>

theorem connect_to_db_catches_witness:
  "connect_to_db (offline (Exception ''OperationalError'' ''could not translate host name''))
     ''PostgreSQL'' ''nowhere'' 5432 ''shop'' ''alice'' ''secret'' [] [] [] [] =
     (None, [st_error ''Error connecting to PostgreSQL: could not translate host name''])
   \<and> fst (connect_to_db (offline (Exception ''OperationalError'' ''could not translate host name''))
     ''None'' ''nowhere'' 5432 ''shop'' ''alice'' ''secret'' [] [] [] []) = None"
  using connect_to_db_catches [of "offline (Exception ''OperationalError'' ''could not translate host name'')"
      "''PostgreSQL''" "''nowhere''" 5432 "''shop''" "''alice''" "''secret''" "[]" "[]" "[]" "[]"
      "Exception ''OperationalError'' ''could not translate host name''"]
    connect_to_db_catches [of "offline (Exception ''OperationalError'' ''could not translate host name'')"
      "''None''" "''nowhere''" 5432 "''shop''" "''alice''" "''secret''" "[]" "[]" "[]" "[]"
      "Exception ''OperationalError'' ''could not translate host name''"]
  by (simp add: try_connect_def offline_def)

section \<open>Storing an item in a dict\<close>

lemma setitem_fresh: "k \<notin> fst ` set d \<Longrightarrow> setitem d k v = d @ [(k, v)]"
  unfolding setitem_def by (induction d) auto

lemma setitem_last: "k \<notin> fst ` set d \<Longrightarrow> setitem (d @ [(k, v)]) k w = d @ [(k, w)]"
  unfolding setitem_def by (induction d) auto

lemma setitem_twice: "k \<notin> fst ` set d \<Longrightarrow> setitem (setitem d k v) k w = d @ [(k, w)]"
  by (simp add: setitem_fresh setitem_last)

section \<open>The Introspector\<close>

subsection \<open>Loops and comprehensions\<close>


lemma for_each_all:
  assumes "\<forall>x \<in> set xs. \<forall>s. body x s = (step s x, None)"
  shows "for_each body xs s = (foldl step s xs, None)"
  using assms by (induction xs arbitrary: s) auto

lemma for_each_invariant:
  assumes "\<And>x s. x \<in> set xs \<Longrightarrow> P s \<Longrightarrow> P (fst (body x s))" and "P s"
  shows "P (fst (for_each body xs s))"
  using assms
proof (induction xs arbitrary: s)
  case Nil
  then show ?case by simp
next
  case (Cons x xs)
  have px: "P (fst (body x s))" using Cons.prems by simp
  show ?case
  proof (cases "body x s")
    case (Pair s' r)
    show ?thesis
    proof (cases r)
      case None
      then show ?thesis using Pair px Cons by simp
    next
      case (Some e)
      then show ?thesis using Pair px by simp
    qed
  qed
qed





subsection \<open>The relational branches\<close>




lemma foldl_columns_item_distinct:
  assumes "distinct (map hd ts)" and "fst ` set d \<inter> hd ` set ts = {}"
  shows "foldl (columns_item columns_of) d ts =
           d @ map (\<lambda>t. (hd t, [(''columns'', map hd (columns_of (hd t)))])) ts"
  using assms
proof (induction ts arbitrary: d)
  case Nil
  then show ?case by simp
next
  case (Cons t ts)
  have both: "hd t \<notin> fst ` set d \<and> fst ` set d \<inter> hd ` set ts = {}"
    using Cons.prems(2) by simp
  have step: "columns_item columns_of d t = d @ [(hd t, [(''columns'', map hd (columns_of (hd t)))])]"
    unfolding columns_item_def using both by (simp add: setitem_fresh)
  have new: "hd t \<notin> hd ` set ts" using Cons.prems(1) by (simp add: image_def)
  have disj: "fst ` set (columns_item columns_of d t) \<inter> hd ` set ts = {}"
    unfolding step using both new by (simp add: Int_Un_distrib2)
  have dist: "distinct (map hd ts)" using Cons.prems(1) by simp
  show ?case
    using Cons.IH [OF dist disj] by (simp add: step)
qed





subsection \<open>What the cursor gives\<close>




subsection \<open>Claim C2: the structure of a relational database\<close>



text \<open>
  The claim as stated fails when a column query raises: the catalog query of
  \<open>flaky_cursor\<close> returns the tables \<^verbatim>\<open>users\<close>, \<^verbatim>\<open>orders\<close> and
  \<^verbatim>\<open>items\<close>, the column query of \<^verbatim>\<open>orders\<close> loses the connection, and the key
  set of the returned mapping is \<^verbatim>\<open>users\<close> alone.
\<close>

theorem column_query_fails_counterexample:
  "execute flaky_cursor information_schema_tables = None
   \<and> fetchall flaky_cursor information_schema_tables = Inr [[''users''], [''orders''], [''items'']]
   \<and> fst ` set (fst (analyze_db_structure (SqlConnection (Inr flaky_cursor)) ''PostgreSQL'')) =
       {''users''}
   \<and> hd ` set [[''users''], [''orders''], [''items'']] = {''users'', ''orders'', ''items''}
   \<and> ''orders'' \<notin> fst ` set (fst (analyze_db_structure (SqlConnection (Inr flaky_cursor)) ''PostgreSQL''))"
  by (simp add: analyze_db_structure_def try_analyze_def analyze_tables_def run_query_def
      table_entry_def subscript_def flaky_cursor_def information_schema_tables_def
      information_schema_columns_def setitem_def)

subsection \<open>The MongoDB branch\<close>

lemma set_setitem: "set (setitem d k v) \<subseteq> insert (k, v) (set d)"
  unfolding setitem_def by (induction d) auto

lemma collection_entry_sampled:
  assumes "\<forall>item \<in> set d. sampled db item"
  shows "\<forall>item \<in> set (fst (collection_entry db col d)). sampled db item"
proof (cases "find_one db col")
  case (Inl e)
  then show ?thesis using assms by (simp add: collection_entry_def)
next
  case (Inr r)
  show ?thesis
  proof (cases r)
    case None
    then show ?thesis using assms Inr by (simp add: collection_entry_def)
  next
    case (Some sample)
    show ?thesis
    proof (cases "sample = []")
      case True
      then show ?thesis using assms Inr Some by (simp add: collection_entry_def)
    next
      case False
      have new: "sampled db (col, [(''keys'', map fst sample)])"
        using Inr Some False by (simp add: sampled_def)
      have "fst (collection_entry db col d) = setitem d col [(''keys'', map fst sample)]"
        using Inr Some False by (simp add: collection_entry_def)
      then show ?thesis
        using set_setitem [of d col "[(''keys'', map fst sample)]"] assms new by auto
    qed
  qed
qed

lemma analyze_mongodb_sampled:
  "\<forall>item \<in> set (fst (analyze_mongodb (MongoDatabase db) [])). sampled db item"
proof (cases "list_collection_names db")
  case (Inl e)
  then show ?thesis by (simp add: analyze_mongodb_def)
next
  case (Inr collections)
  have "\<forall>item \<in> set (fst (for_each (collection_entry db) collections [])). sampled db item"
    by (rule for_each_invariant [where P = "\<lambda>d. \<forall>item \<in> set d. sampled db item"])
      (simp_all add: collection_entry_sampled)
  then show ?thesis using Inr by (simp add: analyze_mongodb_def)
qed

lemma collection_entry_keys_item:
  assumes "\<forall>e. find_one db col \<noteq> Inl e"
  shows "collection_entry db col d = (keys_item db d col, None)"
  using assms
  by (cases "find_one db col") (auto simp: collection_entry_def keys_item_def split: option.splits)

lemma map_of_keys_item_other:
  "c \<noteq> col \<Longrightarrow> map_of (keys_item db d c) col = map_of d col"
  by (auto simp: keys_item_def setitem_def update_conv' split: sum.splits option.splits)

lemma map_of_keys_item_same:
  "find_one db col = Inr (Some sample) \<Longrightarrow> sample \<noteq> [] \<Longrightarrow>
     map_of (keys_item db d col) col = Some [(''keys'', map fst sample)]"
  by (simp add: keys_item_def setitem_def update_conv')

lemma map_of_foldl_keys_item:
  assumes "find_one db col = Inr (Some sample)" and "sample \<noteq> []" and "col \<in> set collections"
  shows "map_of (foldl (keys_item db) d collections) col = Some [(''keys'', map fst sample)]"
  using assms(3)
proof (induction collections arbitrary: d rule: rev_induct)
  case Nil
  then show ?case by simp
next
  case (snoc c cs)
  show ?case
  proof (cases "c = col")
    case True
    then show ?thesis
      using assms(1,2) by (simp add: map_of_keys_item_same)
  next
    case False
    then have "col \<in> set cs" using snoc.prems by simp
    then have "map_of (foldl (keys_item db) d cs) col = Some [(''keys'', map fst sample)]"
      by (rule snoc.IH)
    then show ?thesis
      using False by (simp add: map_of_keys_item_other)
  qed
qed

subsection \<open>Claim C4: collections without a sample\<close>

text \<open>
  Claim C4. For MongoDB, a collection whose \<^verbatim>\<open>find_one\<close> gives \<^verbatim>\<open>None\<close> has no
  entry in the returned mapping; every entry is a collection with a non-empty sample,
  mapped to \<^verbatim>\<open>{"keys": [...]}\<close> with the keys of the sample; and when nothing raises,
  every listed collection with a non-empty sample has its entry.
\<close>

theorem mongodb_structure:
  "(\<forall>col. find_one db col = Inr None \<longrightarrow>
      col \<notin> fst ` set (fst (analyze_db_structure (MongoDatabase db) ''MongoDB'')))
   \<and> (\<forall>(col, metadata) \<in> set (fst (analyze_db_structure (MongoDatabase db) ''MongoDB'')).
        \<exists>sample. find_one db col = Inr (Some sample) \<and> sample \<noteq> [] \<and>
                 metadata = [(''keys'', map fst sample)])
   \<and> (\<forall>collections. list_collection_names db = Inr collections \<and>
          (\<forall>c \<in> set collections. \<forall>e. find_one db c \<noteq> Inl e) \<longrightarrow>
        (\<forall>c \<in> set collections. \<forall>sample. find_one db c = Inr (Some sample) \<and> sample \<noteq> [] \<longrightarrow>
           map_of (fst (analyze_db_structure (MongoDatabase db) ''MongoDB'')) c =
             Some [(''keys'', map fst sample)]))"
proof -
  have res: "fst (analyze_db_structure (MongoDatabase db) ''MongoDB'') =
               fst (analyze_mongodb (MongoDatabase db) [])"
    by (simp add: analyze_db_structure_def try_analyze_def split: prod.splits option.splits)
  have inv: "\<forall>item \<in> set (fst (analyze_mongodb (MongoDatabase db) [])). sampled db item"
    by (rule analyze_mongodb_sampled)
  have absent: "\<forall>col. find_one db col = Inr None \<longrightarrow>
      col \<notin> fst ` set (fst (analyze_mongodb (MongoDatabase db) []))"
  proof (intro allI impI notI)
    fix col
    assume none: "find_one db col = Inr None"
      and "col \<in> fst ` set (fst (analyze_mongodb (MongoDatabase db) []))"
    then obtain metadata where "(col, metadata) \<in> set (fst (analyze_mongodb (MongoDatabase db) []))"
      by auto
    with inv have "sampled db (col, metadata)" by blast
    then show False using none by (simp add: sampled_def)
  qed
  have only: "\<forall>(col, metadata) \<in> set (fst (analyze_mongodb (MongoDatabase db) [])).
        \<exists>sample. find_one db col = Inr (Some sample) \<and> sample \<noteq> [] \<and>
                 metadata = [(''keys'', map fst sample)]"
    using inv by (simp add: sampled_def)
  have all: "\<forall>collections. list_collection_names db = Inr collections \<and>
          (\<forall>c \<in> set collections. \<forall>e. find_one db c \<noteq> Inl e) \<longrightarrow>
        (\<forall>c \<in> set collections. \<forall>sample. find_one db c = Inr (Some sample) \<and> sample \<noteq> [] \<longrightarrow>
           map_of (fst (analyze_mongodb (MongoDatabase db) [])) c =
             Some [(''keys'', map fst sample)])"
  proof (intro allI impI ballI, elim conjE)
    fix collections c sample
    assume names: "list_collection_names db = Inr collections"
      and ok: "\<forall>c \<in> set collections. \<forall>e. find_one db c \<noteq> Inl e"
      and c: "c \<in> set collections"
      and s: "find_one db c = Inr (Some sample)" "sample \<noteq> []"
    have "for_each (collection_entry db) collections [] = (foldl (keys_item db) [] collections, None)"
      by (rule for_each_all) (simp add: collection_entry_keys_item ok)
    then have "fst (analyze_mongodb (MongoDatabase db) []) = foldl (keys_item db) [] collections"
      using names by (simp add: analyze_mongodb_def)
    then show "map_of (fst (analyze_mongodb (MongoDatabase db) [])) c = Some [(''keys'', map fst sample)]"
      using map_of_foldl_keys_item [OF s c] by simp
  qed
  show ?thesis
    unfolding res using absent only all by (intro conjI)
qed

text \<open>
  Three collections, the second without a document.
\<close>

theorem mongodb_structure_witness:
  "fst (analyze_db_structure (MongoDatabase blog_database) ''MongoDB'') =
     [(''posts'', [(''keys'', [''_id'', ''title''])]), (''tags'', [(''keys'', [''_id'', ''label''])])]
   \<and> find_one blog_database ''drafts'' = Inr None
   \<and> ''drafts'' \<notin> fst ` set (fst (analyze_db_structure (MongoDatabase blog_database) ''MongoDB''))"
proof -
  have none: "find_one blog_database ''drafts'' = Inr None"
    by (simp add: blog_database_def)
  have "''drafts'' \<notin> fst ` set (fst (analyze_db_structure (MongoDatabase blog_database) ''MongoDB''))"
    using mongodb_structure [of blog_database] none by blast
  moreover have "fst (analyze_db_structure (MongoDatabase blog_database) ''MongoDB'') =
     [(''posts'', [(''keys'', [''_id'', ''title''])]), (''tags'', [(''keys'', [''_id'', ''label''])])]"
    by (simp add: analyze_db_structure_def try_analyze_def analyze_mongodb_def
        collection_entry_def blog_database_def setitem_def)
  ultimately show ?thesis using none by simp
qed

subsection \<open>Claim C5: the DynamoDB placeholder\<close>

text \<open>
  Claim C5. For Amazon DynamoDB the returned mapping is the same for every connection
  object: the one entry from the label to the two placeholder columns. The connection
  is not read, and nothing is shown.
\<close>

theorem dynamodb_placeholder:
  "analyze_db_structure conn ''Amazon DynamoDB'' =
     ([(''Amazon DynamoDB'', [(''columns'', [''Primary Key'', ''Attributes''])])], [])"
  by (simp add: analyze_db_structure_def try_analyze_def setitem_def)

subsection \<open>A failure in the loop over the tables\<close>









subsection \<open>A failure in the loop over the collections\<close>






subsection \<open>A failure in the Firestore streams\<close>








subsection \<open>Claim C8: a failure in the middle of the loop\<close>



text \<open>
  The claim as stated fails for MongoDB: \<^verbatim>\<open>find_one\<close> raises at \<^verbatim>\<open>audit\<close> after
  the two collections \<^verbatim>\<open>posts\<close> and \<^verbatim>\<open>drafts\<close> have been processed, and the
  returned mapping has one entry, not two, because \<^verbatim>\<open>drafts\<close> has no document.
\<close>

theorem fewer_entries_than_processed_counterexample:
  "analyze_db_structure (MongoDatabase interrupted_database) ''MongoDB'' =
     ([(''posts'', [(''keys'', [''_id'', ''title''])])],
      [st_error ''Error analyzing structure for MongoDB: connection closed''])
   \<and> list_collection_names interrupted_database = Inr ([''posts'', ''drafts''] @ ''audit'' # [])
   \<and> find_one interrupted_database ''posts'' = Inr (Some [(''_id'', ''1''), (''title'', ''Hello'')])
   \<and> find_one interrupted_database ''drafts'' = Inr None
   \<and> find_one interrupted_database ''audit'' = Inl (Exception ''AutoReconnect'' ''connection closed'')
   \<and> length [''posts'', ''drafts''] = 2
   \<and> length (fst (analyze_db_structure (MongoDatabase interrupted_database) ''MongoDB'')) = 1"
  by (simp add: analyze_db_structure_def try_analyze_def analyze_mongodb_def
      collection_entry_def interrupted_database_def setitem_def)

section \<open>The Endpoint Synthesizer: what a call registers and returns\<close>

subsection \<open>The loop when no registration raises\<close>

lemma for_items_step:
  assumes "a < length (frames srv)"
  shows "for_items (\<lambda>_. None) a (x # s) (eps, srv) =
           for_items (\<lambda>_. None) a s
             (entity_endpoints eps x,
              srv\<lparr>routes := routes srv @ entity_routes a x,
                  frames := (frames srv)[a := entity_frame (frames srv ! a) x]\<rparr>)"
proof -
  obtain table metadata where x: "x = (table, metadata)" by (cases x)
  show ?thesis
    using assms
    by (cases srv) (simp add: x columns_branch_def keys_branch_def app_get_def assign_def Let_def
        entity_routes_def entity_endpoints_def entity_frame_def
        split: option.splits)
qed

lemma for_items_accepting:
  assumes "a < length (frames srv)"
  shows "for_items (\<lambda>_. None) a s (eps, srv) =
           ((foldl entity_endpoints eps s,
             srv\<lparr>routes := routes srv @ concat (map (entity_routes a) s),
                 frames := (frames srv)[a := foldl entity_frame (frames srv ! a) s]\<rparr>), None)"
  using assms
proof (induction s arbitrary: eps srv)
  case Nil
  then show ?case by simp
next
  case (Cons x s)
  show ?case
    using Cons.prems by (cases srv) (simp add: for_items_step Cons.IH del: for_items.simps)
qed

subsection \<open>The returned endpoints dict\<close>

lemma entity_endpoints_fresh:
  assumes "fst x \<notin> fst ` set eps"
  shows "entity_endpoints eps x = eps @ map entity_endpoint (filter has_list [x])"
  using assms
  by (cases x)
    (auto simp: entity_endpoints_def entity_endpoint_def has_list_def columnar_def key_based_def
      setitem_fresh setitem_last split: option.splits)

lemma disjoint_subset_insert:
  "K \<subseteq> insert k A \<Longrightarrow> k \<notin> B \<Longrightarrow> A \<inter> B = {} \<Longrightarrow> K \<inter> B = {}"
  by blast

lemma keys_entity_endpoints:
  assumes "fst x \<notin> fst ` set eps"
  shows "fst ` set (entity_endpoints eps x) \<subseteq> insert (fst x) (fst ` set eps)"
proof -
  obtain table metadata where x: "x = (table, metadata)" by (cases x)
  have "fst (entity_endpoint x) = fst x"
    by (simp add: x entity_endpoint_def)
  then have "fst ` set (map entity_endpoint (filter has_list [x])) \<subseteq> {fst x}"
    by (cases "has_list x") simp_all
  then show ?thesis
    unfolding entity_endpoints_fresh [OF assms] by (simp only: set_append image_Un) blast
qed

lemma foldl_entity_endpoints:
  assumes "distinct (map fst s)" and "fst ` set eps \<inter> fst ` set s = {}"
  shows "foldl entity_endpoints eps s = eps @ map entity_endpoint (filter has_list s)"
  using assms
proof (induction s arbitrary: eps)
  case Nil
  then show ?case by simp
next
  case (Cons x s)
  have both: "fst x \<notin> fst ` set eps \<and> fst ` set eps \<inter> fst ` set s = {}"
    using Cons.prems(2) by simp
  have fresh: "fst x \<notin> fst ` set eps" using both by (rule conjunct1)
  have step: "entity_endpoints eps x = eps @ map entity_endpoint (filter has_list [x])"
    by (rule entity_endpoints_fresh [OF fresh])
  have new: "fst x \<notin> fst ` set s" using Cons.prems(1) by (simp add: image_def)
  have old: "fst ` set eps \<inter> fst ` set s = {}" using both by (rule conjunct2)
  have disj: "fst ` set (entity_endpoints eps x) \<inter> fst ` set s = {}"
    by (rule disjoint_subset_insert [OF keys_entity_endpoints [OF fresh] new old])
  have dist: "distinct (map fst s)" using Cons.prems(1) by simp
  have "foldl entity_endpoints eps (x # s) = foldl entity_endpoints (entity_endpoints eps x) s"
    by simp
  also have "\<dots> = entity_endpoints eps x @ map entity_endpoint (filter has_list s)"
    by (rule Cons.IH [OF dist disj])
  also have "\<dots> = eps @ map entity_endpoint (filter has_list [x] @ filter has_list s)"
    unfolding step by simp
  also have "filter has_list [x] @ filter has_list s = filter has_list (x # s)"
    by simp
  finally show ?case .
qed

subsection \<open>The frame and the routes after the loop\<close>

lemma length_entity_routes:
  "length (entity_routes a x) =
     (if columnar (snd x) then 1 else 0) + (if key_based (snd x) then 1 else 0)"
  by (cases x) (auto simp: entity_routes_def columnar_def key_based_def split: option.splits)

lemma length_routes:
  "length (concat (map (entity_routes a) s)) =
     length (filter (\<lambda>x. columnar (snd x)) s) + length (filter (\<lambda>x. key_based (snd x)) s)"
  by (induction s) (auto simp: length_entity_routes)

lemma path_of_entity:
  "p \<in> fst ` set (entity_routes a x) \<longleftrightarrow>
     (columnar (snd x) \<and> p = ''/'' @ fst x @ ''/{id}'') \<or> (key_based (snd x) \<and> p = ''/'' @ fst x)"
proof -
  obtain table metadata where x: "x = (table, metadata)" by (cases x)
  show ?thesis
    by (cases "map_of metadata ''columns''"; cases "map_of metadata ''keys''")
      (auto simp: x entity_routes_def columnar_def key_based_def)
qed

lemma path_of_routes:
  "p \<in> fst ` set (concat (map (entity_routes a) s)) \<longleftrightarrow>
     (\<exists>x \<in> set s. (columnar (snd x) \<and> p = ''/'' @ fst x @ ''/{id}'') \<or>
                   (key_based (snd x) \<and> p = ''/'' @ fst x))"
proof -
  have "fst ` set (concat (map (entity_routes a) s)) = (\<Union>x \<in> set s. fst ` set (entity_routes a x))"
    by auto
  then show ?thesis by (simp add: path_of_entity)
qed

lemma distinct_entity_paths: "distinct (map fst (entity_routes a x))"
  by (cases x) (auto simp: entity_routes_def split: option.splits)

lemma distinct_paths:
  assumes "distinct (map fst s)"
    and "\<forall>x \<in> set s. \<forall>y \<in> set s.
           columnar (snd x) \<and> key_based (snd y) \<longrightarrow> fst y \<noteq> fst x @ ''/{id}''"
  shows "distinct (map fst (concat (map (entity_routes a) s)))"
  using assms
proof (induction s)
  case Nil
  then show ?case by simp
next
  case (Cons x s)
  have rest: "distinct (map fst (concat (map (entity_routes a) s)))"
    using Cons by simp
  have disj: "fst ` set (entity_routes a x) \<inter> fst ` set (concat (map (entity_routes a) s)) = {}"
  proof (rule ccontr)
    assume "\<not> ?thesis"
    then obtain p where p1: "p \<in> fst ` set (entity_routes a x)"
      and p2: "p \<in> fst ` set (concat (map (entity_routes a) s))" by auto
    from p2 obtain y where y: "y \<in> set s"
      and py: "(columnar (snd y) \<and> p = ''/'' @ fst y @ ''/{id}'') \<or> (key_based (snd y) \<and> p = ''/'' @ fst y)"
      unfolding path_of_routes by auto
    from p1 have px: "(columnar (snd x) \<and> p = ''/'' @ fst x @ ''/{id}'') \<or> (key_based (snd x) \<and> p = ''/'' @ fst x)"
      by (simp only: path_of_entity)
    have ne: "fst x \<noteq> fst y" using Cons.prems(1) y by auto
    have c1: "columnar (snd x) \<and> key_based (snd y) \<longrightarrow> fst y \<noteq> fst x @ ''/{id}''"
      using Cons.prems(2) y by simp
    have c2: "columnar (snd y) \<and> key_based (snd x) \<longrightarrow> fst x \<noteq> fst y @ ''/{id}''"
      using Cons.prems(2) y by simp
    consider (cc) "columnar (snd x)" "p = ''/'' @ fst x @ ''/{id}''" "columnar (snd y)" "p = ''/'' @ fst y @ ''/{id}''"
      | (ck) "columnar (snd x)" "p = ''/'' @ fst x @ ''/{id}''" "key_based (snd y)" "p = ''/'' @ fst y"
      | (kc) "key_based (snd x)" "p = ''/'' @ fst x" "columnar (snd y)" "p = ''/'' @ fst y @ ''/{id}''"
      | (kk) "key_based (snd x)" "p = ''/'' @ fst x" "key_based (snd y)" "p = ''/'' @ fst y"
      using px py by blast
    then show False
    proof cases
      case cc
      then have "fst x @ ''/{id}'' = fst y @ ''/{id}''" by simp
      then show False using ne by (simp only: append_same_eq)
    next
      case ck
      then have "fst y = fst x @ ''/{id}''" by simp
      then show False using c1 ck by blast
    next
      case kc
      then have "fst x = fst y @ ''/{id}''" by simp
      then show False using c2 kc by blast
    next
      case kk
      then show False using ne by simp
    qed
  qed
  have "map fst (concat (map (entity_routes a) (x # s))) =
          map fst (entity_routes a x) @ map fst (concat (map (entity_routes a) s))"
    by simp
  moreover have "set (map fst (entity_routes a x)) \<inter> set (map fst (concat (map (entity_routes a) s))) = {}"
    using disj by (simp only: set_map)
  ultimately show ?case
    using rest distinct_entity_paths [of a x] by (simp only: distinct_append simp_thms)
qed

lemma generate_accepting:
  "generate_fastapi_api (\<lambda>_. None) db_choice s srv =
     (foldl entity_endpoints [] s,
      \<lparr>routes = routes srv @ concat (map (entity_routes (length (frames srv))) s),
       frames = frames srv @ [foldl entity_frame \<lparr>f_table = None, f_columns = None, f_keys = None\<rparr> s]\<rparr>,
      [])"
proof -
  define srv0 where
    "srv0 = srv\<lparr>frames := frames srv @ [\<lparr>f_table = None, f_columns = None, f_keys = None\<rparr>]\<rparr>"
  have a: "length (frames srv) < length (frames srv0)" by (simp add: srv0_def)
  have r: "routes srv0 = routes srv" by (simp add: srv0_def)
  have f: "frames srv0 = frames srv @ [\<lparr>f_table = None, f_columns = None, f_keys = None\<rparr>]"
    by (simp add: srv0_def)
  show ?thesis
    unfolding generate_fastapi_api_def Let_def srv0_def [symmetric]
    by (simp add: for_items_accepting [OF a] r f)
qed

subsection \<open>The loop in general\<close>




















subsection \<open>Claim C1: the handlers share the bindings of the loop\<close>




subsection \<open>Claim C3: one route per list\<close>



lemma columns_branch_accepted:
  assumes "\<not> columns_raises route_error (table, metadata)"
  shows "columns_branch route_error a table metadata st = columns_branch (\<lambda>_. None) a table metadata st"
  using assms
  by (cases "map_of metadata ''columns''")
    (auto simp: columns_raises_def columnar_def columns_branch_def app_get_def Let_def)

lemma keys_branch_accepted:
  assumes "\<not> keys_raises route_error (table, metadata)"
  shows "keys_branch route_error a table metadata st = keys_branch (\<lambda>_. None) a table metadata st"
  using assms
  by (cases "map_of metadata ''keys''")
    (auto simp: keys_raises_def key_based_def keys_branch_def app_get_def Let_def)

lemma for_items_accepted:
  assumes "\<forall>x \<in> set s. \<not> columns_raises route_error x \<and> \<not> keys_raises route_error x"
  shows "for_items route_error a s st = for_items (\<lambda>_. None) a s st"
  using assms
proof (induction s arbitrary: st)
  case Nil
  then show ?case by simp
next
  case (Cons x s)
  obtain table metadata where x: "x = (table, metadata)" by (cases x)
  have c: "\<not> columns_raises route_error (table, metadata)"
    and k: "\<not> keys_raises route_error (table, metadata)"
    using Cons.prems by (simp_all add: x)
  have rest: "\<And>st. for_items route_error a s st = for_items (\<lambda>_. None) a s st"
    using Cons by simp
  show ?case
    by (simp add: x columns_branch_accepted [OF c] keys_branch_accepted [OF k] rest)
qed

lemma no_registration_raises:
  assumes "\<forall>(table, metadata) \<in> set s.
             (columnar metadata \<longrightarrow> route_error (''/'' @ table @ ''/{id}'') = None) \<and>
             (key_based metadata \<longrightarrow> route_error (''/'' @ table) = None)"
  shows "\<forall>x \<in> set s. \<not> columns_raises route_error x \<and> \<not> keys_raises route_error x"
  using assms by (auto simp: columns_raises_def keys_raises_def)

lemma generate_accepted:
  assumes "\<forall>(table, metadata) \<in> set s.
             (columnar metadata \<longrightarrow> route_error (''/'' @ table @ ''/{id}'') = None) \<and>
             (key_based metadata \<longrightarrow> route_error (''/'' @ table) = None)"
  shows "generate_fastapi_api route_error db_choice s srv =
     (foldl entity_endpoints [] s,
      \<lparr>routes = routes srv @ concat (map (entity_routes (length (frames srv))) s),
       frames = frames srv @ [foldl entity_frame \<lparr>f_table = None, f_columns = None, f_keys = None\<rparr> s]\<rparr>,
      [])"
proof -
  have "generate_fastapi_api route_error db_choice s srv =
          generate_fastapi_api (\<lambda>_. None) db_choice s srv"
    by (simp add: generate_fastapi_api_def for_items_accepted [OF no_registration_raises [OF assms]])
  then show ?thesis by (simp add: generate_accepting)
qed

text \<open>
  Claim C3, as amended. For a structure mapping with N columnar and M key-based entities,
  when FastAPI refuses none of the paths of its entities, \<^verbatim>\<open>generate_fastapi_api\<close>
  appends N+M routes to the app, \<^verbatim>\<open>/{entity}/{id}\<close> for each columnar entity and
  \<^verbatim>\<open>/{entity}\<close> for each key-based one, in iteration order; their paths are pairwise
  distinct whenever no key-based entity is named as a columnar entity followed by
  \<^verbatim>\<open>/{id}\<close>; the returned dict maps each entity that has a list to its path
  (\<^verbatim>\<open>/{entity}\<close> when it has keys), and nothing is shown.
\<close>

theorem one_route_per_list:
  assumes "\<forall>(table, metadata) \<in> set s.
             (columnar metadata \<longrightarrow> route_error (''/'' @ table @ ''/{id}'') = None) \<and>
             (key_based metadata \<longrightarrow> route_error (''/'' @ table) = None)"
    and "distinct (map fst s)"
  shows "routes (fst (snd (generate_fastapi_api route_error db_choice s srv))) =
           routes srv @ concat (map (entity_routes (length (frames srv))) s)
       \<and> length (concat (map (entity_routes (length (frames srv))) s)) =
           length (filter (\<lambda>x. columnar (snd x)) s) + length (filter (\<lambda>x. key_based (snd x)) s)
       \<and> ((\<forall>x \<in> set s. \<forall>y \<in> set s.
              columnar (snd x) \<and> key_based (snd y) \<longrightarrow> fst y \<noteq> fst x @ ''/{id}'') \<longrightarrow>
            distinct (map fst (concat (map (entity_routes (length (frames srv))) s))))
       \<and> fst (generate_fastapi_api route_error db_choice s srv) =
           map entity_endpoint (filter has_list s)
       \<and> snd (snd (generate_fastapi_api route_error db_choice s srv)) = []"
proof -
  have eps: "foldl entity_endpoints [] s = map entity_endpoint (filter has_list s)"
    using foldl_entity_endpoints [OF assms(2), of "[]"] by simp
  show ?thesis
    unfolding generate_accepted [OF assms(1)]
    using distinct_paths [OF assms(2)]
    by (simp add: length_routes eps)
qed

text \<open>
  One table and one collection, with a registrar that refuses another path: two routes
  with distinct paths.
\<close>

theorem one_route_per_list_witness:
  "routes (fst (snd (generate_fastapi_api duplicate_id ''None''
      [(''users'', [(''columns'', [''id'', ''name''])]), (''logs'', [(''keys'', [''_id''])])]
      \<lparr>routes = [], frames = []\<rparr>))) =
     [(''/users/{id}'', (get_table_data, 0)), (''/logs'', (get_collection_data, 0))]
   \<and> distinct [''/users/{id}'', ''/logs'']
   \<and> fst (generate_fastapi_api duplicate_id ''None''
      [(''users'', [(''columns'', [''id'', ''name''])]), (''logs'', [(''keys'', [''_id''])])]
      \<lparr>routes = [], frames = []\<rparr>) = [(''users'', ''/users/{id}''), (''logs'', ''/logs'')]"
  using one_route_per_list [where route_error = duplicate_id and db_choice = "''None''"
      and srv = "\<lparr>routes = [], frames = []\<rparr>"
      and s = "[(''users'', [(''columns'', [''id'', ''name''])]), (''logs'', [(''keys'', [''_id''])])]"]
  by (simp add: entity_routes_def entity_endpoint_def has_list_def columnar_def key_based_def
      duplicate_id_def)

text \<open>
  The claim as stated fails for the columnar entity \<^verbatim>\<open>users\<close> beside the key-based
  entity \<^verbatim>\<open>users/{id}\<close>: N + M = 2 routes are registered, on one path. It fails as
  well where a registration raises: of the two columnar entities \<^verbatim>\<open>{id}\<close> and
  \<^verbatim>\<open>users\<close> no route is registered and the returned dict is empty.
\<close>

theorem colliding_paths_counterexample:
  "map fst (routes (fst (snd (generate_fastapi_api (\<lambda>_. None) ''None''
      [(''users'', [(''columns'', [''id''])]), (''users/{id}'', [(''keys'', [''_id''])])]
      \<lparr>routes = [], frames = []\<rparr>)))) = [''/users/{id}'', ''/users/{id}'']
   \<and> length (filter (\<lambda>x. columnar (snd x))
        [(''users'', [(''columns'', [''id''])]), (''users/{id}'', [(''keys'', [''_id''])])]) = 1
   \<and> length (filter (\<lambda>x. key_based (snd x))
        [(''users'', [(''columns'', [''id''])]), (''users/{id}'', [(''keys'', [''_id''])])]) = 1
   \<and> card (set [''/users/{id}'', ''/users/{id}'']) = 1
   \<and> generate_fastapi_api duplicate_id ''None''
        [(''{id}'', [(''columns'', [''x''])]), (''users'', [(''columns'', [''id''])])]
        \<lparr>routes = [], frames = []\<rparr> =
      ([], \<lparr>routes = [], frames = [\<lparr>f_table = Some ''{id}'', f_columns = Some [''x''], f_keys = None\<rparr>]\<rparr>,
       [st_error ''Error generating API for None: Duplicated param name id at path /{id}/{id}''])
   \<and> length (filter (\<lambda>x. columnar (snd x))
        [(''{id}'', [(''columns'', [''x''])]), (''users'', [(''columns'', [''id''])])]) = 2"
  by (simp add: generate_fastapi_api_def columns_branch_def keys_branch_def app_get_def
      assign_def setitem_def Let_def columnar_def key_based_def duplicate_id_def)

subsection \<open>Claim C10: an entity with both lists\<close>














text \<open>
  The claim as stated fails where a registration raises at the entity or before it: for
  an entity \<^verbatim>\<open>{id}\<close> with both lists, and for an entity with both lists that follows
  the columnar entity \<^verbatim>\<open>{id}\<close>, no route is registered and the returned dict is
  empty.
\<close>

theorem both_lists_nothing_registered_counterexample:
  "generate_fastapi_api duplicate_id ''None''
      [(''{id}'', [(''columns'', [''x'']), (''keys'', [''_id''])])]
      \<lparr>routes = [], frames = []\<rparr> =
     ([], \<lparr>routes = [], frames = [\<lparr>f_table = Some ''{id}'', f_columns = Some [''x''], f_keys = None\<rparr>]\<rparr>,
      [st_error ''Error generating API for None: Duplicated param name id at path /{id}/{id}''])
   \<and> map_of [(''columns'', [''x'']), (''keys'', [''_id''])] ''columns'' = Some [''x'']
   \<and> map_of [(''columns'', [''x'']), (''keys'', [''_id''])] ''keys'' = Some [''_id'']
   \<and> generate_fastapi_api duplicate_id ''None''
      [(''{id}'', [(''columns'', [''x''])]),
       (''users'', [(''columns'', [''id'']), (''keys'', [''_id''])])]
      \<lparr>routes = [], frames = []\<rparr> =
     ([], \<lparr>routes = [], frames = [\<lparr>f_table = Some ''{id}'', f_columns = Some [''x''], f_keys = None\<rparr>]\<rparr>,
      [st_error ''Error generating API for None: Duplicated param name id at path /{id}/{id}''])"
  by (simp add: generate_fastapi_api_def columns_branch_def keys_branch_def app_get_def
      assign_def setitem_def Let_def duplicate_id_def)

section \<open>The Analyze action\<close>

subsection \<open>Claim C9: a failed connection\<close>

text \<open>
  Claim C9, as amended. When the Connector fails with \<open>e\<close>, the Analyze action
  shows the connection error and nothing else (no structure, no success message), leaves
  the files and the routes of the app as they were, and produces no structure mapping at
  all: \<^verbatim>\<open>analyze_db_structure\<close> is not called and \<^verbatim>\<open>db_structure\<close> stays unbound.
\<close>

theorem failed_connection_skips_analysis:
  assumes "try_connect lib (in_db_choice inp) (in_host inp) (in_port inp) (in_db_name inp)
             (in_username inp) (in_password inp) (in_db_file inp)
             (in_aws_access_key inp) (in_aws_secret_key inp) (in_region inp) = Inl e"
  shows "analyze_db_details lib open_error inp fs srv =
           \<lparr>shown = [st_error (''Error connecting to '' @ in_db_choice inp @ '': '' @ str_exn e)],
            files = fs, db_structure_global = None, app = srv, raised = None\<rparr>"
  using assms by (simp add: analyze_db_details_def connect_to_db_def)

text \<open>
  PostgreSQL on a host that does not resolve.
\<close>

theorem failed_connection_skips_analysis_witness:
  "analyze_db_details (offline (Exception ''OperationalError'' ''could not translate host name''))
     (\<lambda>name. None) bad_host Map.empty \<lparr>routes = [], frames = []\<rparr> =
     \<lparr>shown = [st_error ''Error connecting to PostgreSQL: could not translate host name''],
      files = Map.empty, db_structure_global = None, app = \<lparr>routes = [], frames = []\<rparr>,
      raised = None\<rparr>"
  using failed_connection_skips_analysis [of "offline (Exception ''OperationalError'' ''could not translate host name'')"
      bad_host "Exception ''OperationalError'' ''could not translate host name''"
      "\<lambda>name. None" Map.empty "\<lparr>routes = [], frames = []\<rparr>"]
  by (simp add: try_connect_def offline_def bad_host_def)

text \<open>
  The claim as stated fails: after the failed connection there is no structure mapping,
  not an empty one.
\<close>

theorem no_structure_on_failed_connection_counterexample:
  "db_structure_global
     (analyze_db_details (offline (Exception ''OperationalError'' ''could not translate host name''))
        (\<lambda>name. None) bad_host Map.empty \<lparr>routes = [], frames = []\<rparr>) = None
   \<and> db_structure_global
     (analyze_db_details (offline (Exception ''OperationalError'' ''could not translate host name''))
        (\<lambda>name. None) bad_host Map.empty \<lparr>routes = [], frames = []\<rparr>) \<noteq> Some []"
  by (simp add: analyze_db_details_def connect_to_db_def try_connect_def offline_def bad_host_def)

end
